theory Spec2Isabelle
  imports Main "HOL-Library.Sublist"
begin

text \<open>
  A model of the package \<open>caddywaf\<close>: response.go, helpers.go, types.go and the functions
  of caddywaf.go that reload, provision and report metrics. Go's \<open>int\<close> and \<open>int64\<close> are
  \<open>int\<close>: the code modelled here stores, compares and increments them and never comes
  near their bounds. Strings and byte slices are \<open>string\<close>. A function that mutates its
  receiver or an argument returns the new value. Calls on the logger are left out
  throughout, and so are the mutexes: every function is one sequential step.
\<close>

section \<open>HTTP response writers\<close>

text \<open>
  The writer that the HTTP server hands to the middleware is code outside the package.
  It is observed through the calls made on it, in order: \<open>Header().Set(k, v)\<close>,
  \<open>WriteHeader(code)\<close> and \<open>Write(b)\<close>. Which of these calls a server honours (a second
  \<open>WriteHeader\<close>, a header set after the status line) is the server's business and is
  not modelled; the trace keeps them all.
\<close>

datatype event =
    HeaderSet string string
  | WriteHeaderCall int
  | WriteCall string

text \<open>
  A Go \<open>error\<close> value: one coming out of a library or the operating system, or one built
  by \<open>fmt.Errorf\<close> around another.
\<close>

datatype error =
    Err string
  | Wrapped string error

text \<open>
  The server's writer: the calls it has received, and the error its \<open>Write\<close> returns
  (\<open>None\<close> for a working connection).
\<close>

record ServerWriter =
  calls :: "event list"
  write_error :: "error option"

text \<open>
  \<open>type responseRecorder struct\<close> of response.go. The embedded \<open>http.ResponseWriter\<close> is
  the server's writer; \<open>body\<close> is the \<open>bytes.Buffer\<close>, a Go \<open>int\<close> is an \<open>int\<close> (the code
  only stores and compares status codes).
\<close>

record responseRecorder =
  ResponseWriter :: ServerWriter
  body :: string
  statusCode :: int
  written :: bool

text \<open>
  A value of the interface type \<open>http.ResponseWriter\<close> as the middleware sees it: the
  server's own writer, or a \<open>responseRecorder\<close> around it.
\<close>

datatype http_ResponseWriter =
    Server ServerWriter
  | Recorder responseRecorder

definition StatusOK :: int where
  "StatusOK = 200"

definition StatusInternalServerError :: int where
  "StatusInternalServerError = 500"

definition NewResponseRecorder :: "ServerWriter \<Rightarrow> responseRecorder" where
  "NewResponseRecorder w =
     \<lparr>ResponseWriter = w, body = [], statusCode = 0, written = False\<rparr>"

definition server_Header_Set :: "ServerWriter \<Rightarrow> string \<Rightarrow> string \<Rightarrow> ServerWriter" where
  "server_Header_Set w k v = w\<lparr>calls := calls w @ [HeaderSet k v]\<rparr>"

definition server_WriteHeader :: "ServerWriter \<Rightarrow> int \<Rightarrow> ServerWriter" where
  "server_WriteHeader w code = w\<lparr>calls := calls w @ [WriteHeaderCall code]\<rparr>"

definition server_Write :: "ServerWriter \<Rightarrow> string \<Rightarrow> ServerWriter \<times> int \<times> error option" where
  "server_Write w b =
     (w\<lparr>calls := calls w @ [WriteCall b]\<rparr>,
      (case write_error w of None \<Rightarrow> int (length b) | Some e \<Rightarrow> 0),
      write_error w)"

text \<open>\<open>func (r *responseRecorder) WriteHeader(statusCode int)\<close>\<close>

definition responseRecorder_WriteHeader :: "responseRecorder \<Rightarrow> int \<Rightarrow> responseRecorder" where
  "responseRecorder_WriteHeader r code =
     r\<lparr>statusCode := code,
       ResponseWriter := server_WriteHeader (ResponseWriter r) code\<rparr>"

text \<open>\<open>func (r *responseRecorder) Header()\<close>, followed by \<open>Set\<close> on the map it returns.\<close>

definition responseRecorder_Header_Set ::
  "responseRecorder \<Rightarrow> string \<Rightarrow> string \<Rightarrow> responseRecorder" where
  "responseRecorder_Header_Set r k v =
     r\<lparr>ResponseWriter := server_Header_Set (ResponseWriter r) k v\<rparr>"

text \<open>\<open>func (r *responseRecorder) BodyString() string\<close>\<close>

definition BodyString :: "responseRecorder \<Rightarrow> string" where
  "BodyString r = body r"

text \<open>\<open>func (r *responseRecorder) StatusCode() int\<close>\<close>

definition responseRecorder_StatusCode :: "responseRecorder \<Rightarrow> int" where
  "responseRecorder_StatusCode r = (if statusCode r = 0 then StatusOK else statusCode r)"

text \<open>
  \<open>func (r *responseRecorder) Write(b []byte) (int, error)\<close>. \<open>bytes.Buffer.Write\<close>
  appends and returns \<open>len(b)\<close> and a nil error.
\<close>

definition responseRecorder_Write ::
  "responseRecorder \<Rightarrow> string \<Rightarrow> responseRecorder \<times> int \<times> error option" where
  "responseRecorder_Write r b =
     (let r1 = (if statusCode r = 0 \<and> \<not> written r
                then responseRecorder_WriteHeader r StatusOK else r);
          r2 = r1\<lparr>body := body r1 @ b\<rparr>;
          n = int (length b);
          err = None;
          r3 = r2\<lparr>written := True\<rparr>
      in (r3, n, err))"

text \<open>Calls through the interface dispatch on the dynamic type.\<close>

fun Header_Set :: "http_ResponseWriter \<Rightarrow> string \<Rightarrow> string \<Rightarrow> http_ResponseWriter" where
  "Header_Set (Server w) k v = Server (server_Header_Set w k v)"
| "Header_Set (Recorder r) k v = Recorder (responseRecorder_Header_Set r k v)"

fun WriteHeader :: "http_ResponseWriter \<Rightarrow> int \<Rightarrow> http_ResponseWriter" where
  "WriteHeader (Server w) code = Server (server_WriteHeader w code)"
| "WriteHeader (Recorder r) code = Recorder (responseRecorder_WriteHeader r code)"

fun Write :: "http_ResponseWriter \<Rightarrow> string \<Rightarrow> http_ResponseWriter \<times> int \<times> error option" where
  "Write (Server w) b = (case server_Write w b of (w', n, err) \<Rightarrow> (Server w', n, err))"
| "Write (Recorder r) b = (case responseRecorder_Write r b of (r', n, err) \<Rightarrow> (Recorder r', n, err))"

text \<open>The calls that have reached the server's writer.\<close>

fun sent :: "http_ResponseWriter \<Rightarrow> event list" where
  "sent (Server w) = calls w"
| "sent (Recorder r) = calls (ResponseWriter r)"


section \<open>Data model (types.go)\<close>

text \<open>\<open>type CustomBlockResponse struct\<close>. \<open>Headers\<close> is a Go map; the list gives its
  entries in the order in which a \<open>range\<close> loop visits them.\<close>

record CustomBlockResponse =
  StatusCode :: int
  Headers :: "(string \<times> string) list"
  Body :: string

text \<open>\<open>type WAFState struct\<close>\<close>

record WAFState =
  TotalScore :: int
  Blocked :: bool
  StatusCode :: int
  ResponseWritten :: bool

text \<open>
  A \<open>*regexp.Regexp\<close>: \<open>None\<close> is the nil pointer, \<open>Some a\<close> the address of a compiled
  object. Two pointers reference the same object exactly when they are equal.
\<close>

type_synonym Regexp_ptr = "nat option"

text \<open>\<open>type RuleCache struct\<close>; the mutex is not modelled.\<close>

record RuleCache =
  rules :: "string \<rightharpoonup> Regexp_ptr"

text \<open>\<open>type Rule struct\<close>\<close>

record Rule =
  ID :: string
  Phase :: int
  Pattern :: string
  Targets :: "string list"
  Severity :: string
  Score :: int
  Action :: string
  Description :: string
  regex :: Regexp_ptr
  Priority :: int

text \<open>\<open>type CountryAccessFilter struct\<close>; \<open>geoIP\<close> is the open database handle, named by
  the path it was opened from.\<close>

record CountryAccessFilter =
  Enabled :: bool
  CountryList :: "string list"
  GeoIPDBPath :: string
  geoIP :: "string option"

text \<open>The rate limiter's configuration and the limiter itself are declared in another
  file of the package; the fields are the ones \<open>Provision\<close> reads, and the two counters
  that \<open>GetTotalRequests\<close> and \<open>GetBlockedRequests\<close> return.\<close>

record RateLimit =
  Requests :: int
  Window :: int
  CleanupInterval :: int
  Paths :: "string list"
  MatchAllPaths :: bool

record RateLimiter =
  limiter_totalRequests :: int
  limiter_blockedRequests :: int

text \<open>
  \<open>netip.Addr\<close> and \<open>netip.Prefix\<close> of the standard library, and the \<open>iptrie.Trie\<close> the
  middleware stores prefixes in. Every prefix is inserted with the value nil, so a trie
  is the set of prefixes inserted.
\<close>

datatype Addr =
    IPv4 nat nat nat nat
  | IPv6 "nat list"

datatype Prefix = Prefix (Prefix_Addr: Addr) (Prefix_Bits: nat)

type_synonym Trie = "Prefix set"

definition NewTrie :: Trie where
  "NewTrie = {}"

definition Insert :: "Trie \<Rightarrow> Prefix \<Rightarrow> Trie" where
  "Insert t p = insert p t"

text \<open>
  \<open>type Middleware struct\<close>: the fields that the functions below read or write, under
  the names caddywaf.go uses (\<open>CountryBlacklist\<close>). \<open>CustomResponses\<close> is
  \<open>None\<close> for a nil map. \<open>ruleHits\<close> lists the entries of the \<open>sync.Map\<close>, which holds
  \<open>RuleID\<close> keys and \<open>HitCount\<close> values. \<open>regexps\<close> is not a field of the struct: it is
  the part of the Go heap that holds compiled regular expressions, the object at address
  \<open>a\<close> being the one compiled from the pattern \<open>regexps ! a\<close>.
\<close>

record Middleware =
  RuleFiles :: "string list"
  IPBlacklistFile :: string
  DNSBlacklistFile :: string
  AnomalyThreshold :: int
  CountryBlacklist :: CountryAccessFilter
  CountryWhitelist :: CountryAccessFilter
  Rules :: "int \<rightharpoonup> Rule list"
  ipBlacklist :: Trie
  dnsBlacklist :: "string set"
  LogSeverity :: string
  LogJSON :: bool
  CustomResponses :: "(int \<rightharpoonup> CustomBlockResponse) option"
  LogFilePath :: string
  LogBuffer :: int
  RedactSensitiveData :: bool
  ruleHits :: "(string \<times> int) list"
  MetricsEndpoint :: string
  RateLimit :: RateLimit
  rateLimiter :: "RateLimiter option"
  totalRequests :: int
  blockedRequests :: int
  allowedRequests :: int
  ruleHitsByPhase :: "(int \<times> int) list"
  geoIPStats :: "(string \<times> int) list"
  geoIPBlocked :: int
  ruleCache :: RuleCache
  IPBlacklistBlockCount :: int
  DNSBlacklistBlockCount :: int
  regexps :: "string list"

section \<open>The world outside the package\<close>

text \<open>
  \<open>os.Stat\<close> returns a \<open>FileInfo\<close> (nil on failure) and an error (nil on success). Of an
  error, the code asks only whether \<open>os.IsNotExist\<close> holds.
\<close>

record FileInfo =
  IsDir :: bool

datatype os_error = ErrNotExist | ErrPermission | ErrOther string

definition os_IsNotExist :: "os_error option \<Rightarrow> bool" where
  "os_IsNotExist err = (err = Some ErrNotExist)"

text \<open>The values stored under the keys of the metrics map, by their Go types.\<close>

datatype metric_value =
    GoInt64 int
  | GoInt int
  | GoString string
  | MapStringInt "(string \<times> int) list"
  | MapIntInt64 "(int \<times> int) list"

text \<open>
  What the functions below ask of the file system, of libraries and of the parts of the
  package that are not among the sources (the blacklist loader, the configuration
  loader, the rate limiter's constructor, the Tor module):
  \<^item> \<open>os_Stat\<close>, \<open>os_OpenFile\<close> (does opening the log file succeed);
  \<^item> \<open>LoadIPBlacklistFromFile\<close>: the error, or the keys the loader leaves in the map it
    was given, in the order in which the \<open>range\<close> loop visits them;
  \<^item> \<open>LoadDNSBlacklistFromFile\<close>: the error if any, and the map after the call;
  \<^item> \<open>netip_ParsePrefix\<close> (\<open>None\<close> for an error), \<open>json_Marshal\<close>, \<open>maxminddb_Open\<close>;
  \<^item> \<open>ReadRuleFile\<close>: the rule objects of a rule file, or the error of a file that does not
    parse; \<open>regexp_Compile\<close>: does the pattern compile;
  \<^item> \<open>Tor_Provision\<close>, \<open>NewRateLimiter\<close>, \<open>UnmarshalCaddyfile\<close> on a dispenser without
    tokens.
\<close>

record World =
  os_Stat :: "string \<Rightarrow> FileInfo option \<times> os_error option"
  os_OpenFile :: "string \<Rightarrow> error option"
  LoadIPBlacklistFromFile :: "string \<Rightarrow> error + string list"
  LoadDNSBlacklistFromFile :: "string \<Rightarrow> string set \<Rightarrow> error option \<times> string set"
  netip_ParsePrefix :: "string \<Rightarrow> Prefix option"
  json_Marshal :: "(string \<times> metric_value) list \<Rightarrow> error + string"
  maxminddb_Open :: "string \<Rightarrow> error + string"
  ReadRuleFile :: "string \<Rightarrow> error + Rule list"
  regexp_Compile :: "string \<Rightarrow> bool"
  Tor_Provision :: "error option"
  NewRateLimiter :: "RateLimit \<Rightarrow> error + RateLimiter"
  UnmarshalCaddyfile :: "Middleware \<Rightarrow> error option \<times> Middleware"

section \<open>helpers.go\<close>

text \<open>A nil pointer dereference ends the goroutine with a panic.\<close>

datatype panic = NilPointerDereference

text \<open>\<open>func fileExists(path string) bool\<close>: \<open>info.IsDir()\<close> on a nil \<open>info\<close> panics.\<close>

definition fileExists :: "World \<Rightarrow> string \<Rightarrow> panic + bool" where
  "fileExists W path =
     (if path = [] then Inr False
      else (case os_Stat W path of (info, err) \<Rightarrow>
        if os_IsNotExist err then Inr False
        else (case info of
                None \<Rightarrow> Inl NilPointerDereference
              | Some i \<Rightarrow> Inr (\<not> IsDir i))))"


text \<open>\<open>func appendCIDR(ip string) string\<close>\<close>

definition appendCIDR :: "string \<Rightarrow> string" where
  "appendCIDR ip = (if count_list ip (CHR '':'') < 2 then ip @ ''/32'' else ip @ ''/64'')"

section \<open>Rule cache (types.go)\<close>

definition NewRuleCache :: RuleCache where
  "NewRuleCache = \<lparr>rules = Map.empty\<rparr>"

text \<open>\<open>func (rc *RuleCache) Get(ruleID string) (*regexp.Regexp, bool)\<close>: a missing key
  gives the zero value, nil, and false.\<close>

definition Get :: "RuleCache \<Rightarrow> string \<Rightarrow> Regexp_ptr \<times> bool" where
  "Get rc ruleID = (case rules rc ruleID of None \<Rightarrow> (None, False) | Some re \<Rightarrow> (re, True))"

text \<open>\<open>func (rc *RuleCache) Set(ruleID string, regex *regexp.Regexp)\<close>\<close>

definition Set :: "RuleCache \<Rightarrow> string \<Rightarrow> Regexp_ptr \<Rightarrow> RuleCache" where
  "Set rc ruleID re = rc\<lparr>rules := (rules rc)(ruleID \<mapsto> re)\<rparr>"


section \<open>Metrics\<close>

text \<open>
  Modelled from the spec: \<open>incrementAllowedRequestsMetric\<close> and
  \<open>incrementBlockedRequestsMetric\<close> are called by response.go and are not among the sources.
  The spec lists \<open>allowed_requests\<close> and \<open>blocked_requests\<close> among the atomic counters;
  each call adds one to its counter.
\<close>

definition incrementAllowedRequestsMetric :: "Middleware \<Rightarrow> Middleware" where
  "incrementAllowedRequestsMetric m = m\<lparr>allowedRequests := allowedRequests m + 1\<rparr>"

definition incrementBlockedRequestsMetric :: "Middleware \<Rightarrow> Middleware" where
  "incrementBlockedRequestsMetric m = m\<lparr>blockedRequests := blockedRequests m + 1\<rparr>"

text \<open>\<open>func (m *Middleware) getRuleHitStats() map[string]int\<close>: every entry of
  \<open>ruleHits\<close> has a \<open>RuleID\<close> key and a \<open>HitCount\<close> value, so both type assertions succeed
  and every entry is copied.\<close>

definition getRuleHitStats :: "Middleware \<Rightarrow> (string \<times> int) list" where
  "getRuleHitStats m = ruleHits m"

definition wafVersion :: string where
  "wafVersion = ''v0.0.8''"

text \<open>The map literal \<open>metrics\<close> of \<open>handleMetricsRequest\<close>.\<close>

definition metrics :: "Middleware \<Rightarrow> (string \<times> metric_value) list" where
  "metrics m =
     (let rateLimiterTotalRequests =
            (case rateLimiter m of None \<Rightarrow> 0 | Some rl \<Rightarrow> limiter_totalRequests rl);
          rateLimiterBlockedRequests =
            (case rateLimiter m of None \<Rightarrow> 0 | Some rl \<Rightarrow> limiter_blockedRequests rl);
          ruleHits = getRuleHitStats m
      in [(''total_requests'', GoInt64 (totalRequests m)),
          (''blocked_requests'', GoInt64 (blockedRequests m)),
          (''allowed_requests'', GoInt64 (allowedRequests m)),
          (''rule_hits'', MapStringInt ruleHits),
          (''rule_hits_by_phase'', MapIntInt64 (ruleHitsByPhase m)),
          (''geoip_blocked'', GoInt (geoIPBlocked m)),
          (''ip_blacklist_hits'', GoInt64 (IPBlacklistBlockCount m)),
          (''dns_blacklist_hits'', GoInt64 (DNSBlacklistBlockCount m)),
          (''rate_limiter_requests'', GoInt64 rateLimiterTotalRequests),
          (''rate_limiter_blocked_requests'', GoInt64 rateLimiterBlockedRequests),
          (''version'', GoString wafVersion)])"

text \<open>\<open>func (m *Middleware) handleMetricsRequest(w http.ResponseWriter, r *http.Request) error\<close>;
  the request is only logged.\<close>

definition handleMetricsRequest ::
  "World \<Rightarrow> Middleware \<Rightarrow> http_ResponseWriter \<Rightarrow> error option \<times> http_ResponseWriter" where
  "handleMetricsRequest W m w =
     (let w1 = Header_Set w ''Content-Type'' ''application/json'' in
      case json_Marshal W (metrics m) of
        Inl err \<Rightarrow>
          (Some (Wrapped ''failed to marshal metrics to JSON'' err),
           WriteHeader w1 StatusInternalServerError)
      | Inr jsonMetrics \<Rightarrow>
          (case Write w1 jsonMetrics of
             (w2, n, Some err) \<Rightarrow> (Some (Wrapped ''failed to write metrics response'' err), w2)
           | (w2, n, None) \<Rightarrow> (None, w2)))"

section \<open>Allowing and blocking a request (response.go)\<close>

text \<open>\<open>func (m *Middleware) allowRequest(state *WAFState)\<close>\<close>

definition allowRequest :: "Middleware \<Rightarrow> WAFState \<Rightarrow> Middleware \<times> WAFState" where
  "allowRequest m state =
     (incrementAllowedRequestsMetric m,
      state\<lparr>Blocked := False, WAFState.StatusCode := StatusOK, ResponseWritten := False\<rparr>)"

text \<open>
  Modelled from the spec: \<open>writeCustomResponse\<close> is called by \<open>blockRequest\<close> and is not in
  the sources. The spec: "If a \<open>custom_responses\<close> map contains an entry for the status
  code, use its \<open>StatusCode\<close>, headers, and body instead." With an entry the function sets
  the entry's headers, writes its status code and then its body; without one it writes
  nothing.
\<close>

definition writeCustomResponse ::
  "Middleware \<Rightarrow> http_ResponseWriter \<Rightarrow> int \<Rightarrow> http_ResponseWriter" where
  "writeCustomResponse m w status_code =
     (case CustomResponses m of
        None \<Rightarrow> w
      | Some responses \<Rightarrow>
          (case responses status_code of
             None \<Rightarrow> w
           | Some customResponse \<Rightarrow>
               (let w1 = fold (\<lambda>(k, v) w'. Header_Set w' k v) (Headers customResponse) w;
                    w2 = WriteHeader w1 (CustomBlockResponse.StatusCode customResponse)
                in fst (Write w2 (Body customResponse)))))"

text \<open>
  \<open>func (m *Middleware) blockRequest(recorder http.ResponseWriter, r *http.Request,
  state *WAFState, statusCode int, reason, ruleID, matchedValue string, fields ...zap.Field)\<close>.
  The request, the rule id, the matched value and the fields only go to the log, which is
  not modelled; an error of the final \<open>Write\<close> is logged and dropped.
\<close>

definition blockRequest ::
  "Middleware \<Rightarrow> http_ResponseWriter \<Rightarrow> WAFState \<Rightarrow> int \<Rightarrow> string \<Rightarrow>
     Middleware \<times> http_ResponseWriter \<times> WAFState" where
  "blockRequest m recorder state status_code reason =
     (let state1 = state\<lparr>Blocked := True, WAFState.StatusCode := status_code,
                         ResponseWritten := True\<rparr>;
          m1 = incrementBlockedRequestsMetric m;
          recorder1 = Header_Set recorder ''Content-Type'' ''text/plain'';
          recorder2 = WriteHeader recorder1 status_code
      in if CustomResponses m1 \<noteq> None
         then (m1, writeCustomResponse m1 recorder2 (WAFState.StatusCode state1), state1)
         else (let message = ''Request blocked by WAF. Reason: '' @ reason
               in (m1, fst (Write recorder2 message), state1)))"

section \<open>Loading the blacklists (caddywaf.go)\<close>

text \<open>
  \<open>func (m *Middleware) loadIPBlacklist(path string, blacklistMap iptrie.Trie) error\<close>.
  The trie is passed by value; the model takes the insertions made through that copy to
  be the ones seen through the pointer the caller holds, and returns the trie.
\<close>

definition loadIPBlacklist :: "World \<Rightarrow> string \<Rightarrow> Trie \<Rightarrow> error option \<times> Trie" where
  "loadIPBlacklist W path blacklistMap =
     (if os_IsNotExist (snd (os_Stat W path)) then (None, blacklistMap)
      else (case LoadIPBlacklistFromFile W path of
              Inl err \<Rightarrow> (Some (Wrapped ''failed to load IP blacklist'' err), blacklistMap)
            | Inr blacklist \<Rightarrow>
                (None,
                 fold (\<lambda>ip t. case netip_ParsePrefix W (appendCIDR ip) of
                                 None \<Rightarrow> t
                               | Some pfx \<Rightarrow> Insert t pfx)
                      blacklist blacklistMap)))"

text \<open>\<open>func (m *Middleware) loadDNSBlacklist(path string, blacklistMap map[string]struct{}) error\<close>\<close>

definition loadDNSBlacklist :: "World \<Rightarrow> string \<Rightarrow> string set \<Rightarrow> error option \<times> string set" where
  "loadDNSBlacklist W path blacklistMap =
     (if os_IsNotExist (snd (os_Stat W path)) then (None, blacklistMap)
      else (case LoadDNSBlacklistFromFile W path blacklistMap of
              (Some err, blacklistMap') \<Rightarrow>
                (Some (Wrapped ''failed to load DNS blacklist'' err), blacklistMap')
            | (None, blacklistMap') \<Rightarrow> (None, blacklistMap')))"

section \<open>Loading the rules\<close>

text \<open>
  Modelled from the spec: the rule loader (\<open>loadRules\<close>) is called by caddywaf.go and is
  not in the sources. The spec:
  \<^item> Rule Cache: "Shared mapping from pattern source [...] to the compiled regex. [...]
    Identical patterns across rules MUST reuse a single compiled regex."
  \<^item> Rule Loader: "For each file: parse as a sequence of rule objects; for each object,
    validate per the invariants of section 3 and compile the pattern (via Rule Cache). Collect all valid
    rules, sort by (priority, id), bucket by phase into a new RuleSet. On any file failing
    to parse entirely, the load fails with a reason naming the file; partial per-rule
    failures are warnings and the generation still loads."
  \<^item> Invariants: "IDs unique per generation; phase in {1,2,3,4}; score >= 0; pattern
    compiles; action in the closed set above."
  The cache is the \<open>RuleCache\<close> of types.go, read with \<open>Get\<close> and written with \<open>Set\<close>;
  compiling a pattern allocates a new object in \<open>regexps\<close>.
\<close>

definition valid_rule :: "Rule \<Rightarrow> bool" where
  "valid_rule r =
     (ID r \<noteq> [] \<and> 1 \<le> Phase r \<and> Phase r \<le> 4 \<and> 0 \<le> Score r \<and>
      (Action r = ''log'' \<or> Action r = ''block'' \<or> Action r = ''challenge''))"

definition compile_via_cache ::
  "World \<Rightarrow> string \<Rightarrow> RuleCache \<times> string list \<Rightarrow> Regexp_ptr option \<times> RuleCache \<times> string list" where
  "compile_via_cache W pattern st =
     (case st of (rc, heap) \<Rightarrow>
        (case Get rc pattern of
           (re, True) \<Rightarrow> (Some re, rc, heap)
         | (re, False) \<Rightarrow>
             if regexp_Compile W pattern
             then (Some (Some (length heap)), Set rc pattern (Some (length heap)), heap @ [pattern])
             else (None, rc, heap)))"

fun load_rule_objects ::
  "World \<Rightarrow> Rule list \<Rightarrow> string list \<Rightarrow> RuleCache \<times> string list \<Rightarrow>
     Rule list \<times> string list \<times> RuleCache \<times> string list" where
  "load_rule_objects W [] seen st = ([], seen, st)"
| "load_rule_objects W (r # rs) seen st =
     (if \<not> valid_rule r \<or> ID r \<in> set seen then load_rule_objects W rs seen st
      else (case compile_via_cache W (Pattern r) st of
              (None, st') \<Rightarrow> load_rule_objects W rs seen st'
            | (Some re, st') \<Rightarrow>
                (case load_rule_objects W rs (ID r # seen) st' of
                   (out, seen', st'') \<Rightarrow> (r\<lparr>regex := re\<rparr> # out, seen', st''))))"

fun load_rule_files ::
  "World \<Rightarrow> string list \<Rightarrow> string list \<Rightarrow> RuleCache \<times> string list \<Rightarrow>
     (error + Rule list) \<times> RuleCache \<times> string list" where
  "load_rule_files W [] seen st = (Inr [], st)"
| "load_rule_files W (f # fs) seen st =
     (case ReadRuleFile W f of
        Inl err \<Rightarrow> (Inl (Wrapped f err), st)
      | Inr objects \<Rightarrow>
          (case load_rule_objects W objects seen st of
             (out, seen', st') \<Rightarrow>
               (case load_rule_files W fs seen' st' of
                  (Inl err, st'') \<Rightarrow> (Inl err, st'')
                | (Inr rest, st'') \<Rightarrow> (Inr (out @ rest), st''))))"

text \<open>Go compares strings byte by byte.\<close>

fun string_le :: "string \<Rightarrow> string \<Rightarrow> bool" where
  "string_le [] ys = True"
| "string_le (x # xs) [] = False"
| "string_le (x # xs) (y # ys) =
     ((of_char x :: nat) < of_char y \<or> (x = y \<and> string_le xs ys))"

definition rule_le :: "Rule \<Rightarrow> Rule \<Rightarrow> bool" where
  "rule_le r1 r2 =
     (Priority r1 < Priority r2 \<or> (Priority r1 = Priority r2 \<and> string_le (ID r1) (ID r2)))"

fun insert_rule :: "Rule \<Rightarrow> Rule list \<Rightarrow> Rule list" where
  "insert_rule r [] = [r]"
| "insert_rule r (x # xs) = (if rule_le r x then r # x # xs else x # insert_rule r xs)"

fun sort_rules :: "Rule list \<Rightarrow> Rule list" where
  "sort_rules [] = []"
| "sort_rules (r # rs) = insert_rule r (sort_rules rs)"

definition bucket_by_phase :: "Rule list \<Rightarrow> (int \<rightharpoonup> Rule list)" where
  "bucket_by_phase rs =
     (\<lambda>phase. if 1 \<le> phase \<and> phase \<le> 4 then Some (filter (\<lambda>r. Phase r = phase) rs) else None)"

definition loadRules :: "World \<Rightarrow> string list \<Rightarrow> Middleware \<Rightarrow> error option \<times> Middleware" where
  "loadRules W paths m =
     (case load_rule_files W paths [] (ruleCache m, regexps m) of
        (Inl err, rc, heap) \<Rightarrow> (Some err, m\<lparr>ruleCache := rc, regexps := heap\<rparr>)
      | (Inr rs, rc, heap) \<Rightarrow>
          (None, m\<lparr>Rules := bucket_by_phase (sort_rules rs), ruleCache := rc, regexps := heap\<rparr>))"

section \<open>Reloading (caddywaf.go)\<close>

text \<open>\<open>func (m *Middleware) ReloadRules() error\<close>; the lock is held throughout, and a
  call is one step of the model.\<close>

definition ReloadRules :: "World \<Rightarrow> Middleware \<Rightarrow> error option \<times> Middleware" where
  "ReloadRules W m =
     (case loadRules W (RuleFiles m) m of
        (Some err, m') \<Rightarrow> (Some (Wrapped ''failed to reload rules'' err), m')
      | (None, m') \<Rightarrow> (None, m'))"




section \<open>Provisioning (caddywaf.go)\<close>

text \<open>
  \<open>func (m *Middleware) Provision(ctx caddy.Context) error\<close>, in the order of the
  source. Loggers, the log worker and the file watchers (goroutines) hold no state that
  the functions here read, and are left out. The function returns an error or nil, or
  panics (inside \<open>fileExists\<close>).
\<close>

text \<open>Lines 99 to 113: the fresh cache, rule map and trie, and the logging defaults.\<close>

definition provision_defaults :: "Middleware \<Rightarrow> Middleware" where
  "provision_defaults m =
     (let m1 = m\<lparr>ruleCache := NewRuleCache, Rules := Map.empty, ipBlacklist := NewTrie\<rparr>;
          m2 = (if LogSeverity m1 = [] then m1\<lparr>LogSeverity := ''info''\<rparr> else m1)
      in if LogFilePath m2 = [] then m2\<lparr>LogFilePath := ''log.json''\<rparr> else m2)"

text \<open>Lines 162 to 168: the anomaly threshold.\<close>

definition provision_threshold :: "Middleware \<Rightarrow> Middleware" where
  "provision_threshold m =
     (if AnomalyThreshold m \<le> 0 then m\<lparr>AnomalyThreshold := 20\<rparr> else m)"

text \<open>Lines 189 to 209: the rate limiter.\<close>

definition provision_rate_limit :: "World \<Rightarrow> Middleware \<Rightarrow> error + Middleware" where
  "provision_rate_limit W m =
     (if Requests (RateLimit m) > 0 then
        (if Window (RateLimit m) \<le> 0 \<or> CleanupInterval (RateLimit m) \<le> 0
         then Inl (Err ''invalid rate limit configuration: requests, window, and cleanup_interval must be greater than zero'')
         else (case NewRateLimiter W (RateLimit m) of
                 Inl err \<Rightarrow> Inl (Wrapped ''failed to create rate limiter'' err)
               | Inr rl \<Rightarrow> Inr (m\<lparr>rateLimiter := Some rl\<rparr>)))
      else Inr m)"

text \<open>Lines 211 to 237: the GeoIP database.\<close>

definition provision_geoip :: "World \<Rightarrow> Middleware \<Rightarrow> panic + Middleware" where
  "provision_geoip W m =
     (if Enabled (CountryBlacklist m) \<or> Enabled (CountryWhitelist m) then
        (let geoIPPath =
               (if Enabled (CountryWhitelist m) \<and> GeoIPDBPath (CountryWhitelist m) \<noteq> []
                then GeoIPDBPath (CountryWhitelist m) else GeoIPDBPath (CountryBlacklist m))
         in case fileExists W geoIPPath of
              Inl p \<Rightarrow> Inl p
            | Inr False \<Rightarrow> Inr m
            | Inr True \<Rightarrow>
                (case maxminddb_Open W geoIPPath of
                   Inl err \<Rightarrow> Inr m
                 | Inr reader \<Rightarrow>
                     (let m1 = (if Enabled (CountryBlacklist m)
                                then m\<lparr>CountryBlacklist := (CountryBlacklist m)\<lparr>geoIP := Some reader\<rparr>\<rparr>
                                else m)
                      in Inr (if Enabled (CountryWhitelist m1)
                              then m1\<lparr>CountryWhitelist := (CountryWhitelist m1)\<lparr>geoIP := Some reader\<rparr>\<rparr>
                              else m1))))
      else Inr m)"

text \<open>Lines 256 to 285: the blacklists and the rules. The trie and the map are assigned
  to the middleware before they are filled.\<close>

definition provision_load :: "World \<Rightarrow> Middleware \<Rightarrow> error option \<times> Middleware" where
  "provision_load W m =
     (case (if IPBlacklistFile m \<noteq> [] then
              (case loadIPBlacklist W (IPBlacklistFile m) NewTrie of
                 (err, t) \<Rightarrow> (err, m\<lparr>ipBlacklist := t\<rparr>))
            else (None, m)) of
        (Some err, m1) \<Rightarrow> (Some (Wrapped ''failed to load IP blacklist'' err), m1)
      | (None, m1) \<Rightarrow>
          (case (if DNSBlacklistFile m1 \<noteq> [] then
                   (case loadDNSBlacklist W (DNSBlacklistFile m1) {} of
                      (err, d) \<Rightarrow> (err, m1\<lparr>dnsBlacklist := d\<rparr>))
                 else (None, m1)) of
             (Some err, m2) \<Rightarrow> (Some (Wrapped ''failed to load DNS blacklist'' err), m2)
           | (None, m2) \<Rightarrow>
               (if length (RuleFiles m2) > 0 then
                  (case loadRules W (RuleFiles m2) m2 of
                     (Some err, m3) \<Rightarrow> (Some (Wrapped ''failed to load rules'' err), m3)
                   | (None, m3) \<Rightarrow> (None, m3))
                else (None, m2))))"

definition Provision :: "World \<Rightarrow> Middleware \<Rightarrow> panic + (error option \<times> Middleware)" where
  "Provision W m =
     (let m1 = provision_defaults m in
      case os_OpenFile W (LogFilePath m1) of
        Some err \<Rightarrow> Inr (None, m1)
      | None \<Rightarrow>
          (let m2 = provision_threshold m1 in
           case Tor_Provision W of
             Some err \<Rightarrow> Inr (Some err, m2)
           | None \<Rightarrow>
               (let m3 = m2\<lparr>ruleHits := []\<rparr> in
                case provision_rate_limit W m3 of
                  Inl err \<Rightarrow> Inr (Some err, m3)
                | Inr m4 \<Rightarrow>
                    (let m5 = m4\<lparr>geoIPStats := []\<rparr> in
                     case provision_geoip W m5 of
                       Inl p \<Rightarrow> Inl p
                     | Inr m6 \<Rightarrow>
                         (case UnmarshalCaddyfile W m6 of
                            (Some err, m7) \<Rightarrow> Inr (Some (Wrapped ''failed to load config'' err), m7)
                          | (None, m7) \<Rightarrow> Inr (provision_load W m7))))))"

section \<open>Sequences of operations on one request, and concrete inputs\<close>

text \<open>
  The two functions of response.go that write a \<open>WAFState\<close>, as operations applied in
  sequence to the middleware, the response writer and the state of one request.
\<close>

datatype request_op = AllowRequest | BlockRequest int string

fun apply_op ::
  "request_op \<Rightarrow> Middleware \<times> http_ResponseWriter \<times> WAFState \<Rightarrow>
     Middleware \<times> http_ResponseWriter \<times> WAFState" where
  "apply_op AllowRequest (m, w, state) =
     (case allowRequest m state of (m', state') \<Rightarrow> (m', w, state'))"
| "apply_op (BlockRequest code reason) (m, w, state) = blockRequest m w state code reason"

definition request_state :: "Middleware \<times> http_ResponseWriter \<times> WAFState \<Rightarrow> WAFState" where
  "request_state c = snd (snd c)"

definition request_writer ::
  "Middleware \<times> http_ResponseWriter \<times> WAFState \<Rightarrow> http_ResponseWriter" where
  "request_writer c = fst (snd c)"

text \<open>The zero values of the Go types, and a server writer that has received no call.\<close>

definition zero_CountryAccessFilter :: CountryAccessFilter where
  "zero_CountryAccessFilter =
     \<lparr>Enabled = False, CountryList = [], GeoIPDBPath = [], geoIP = None\<rparr>"

definition zero_Middleware :: Middleware where
  "zero_Middleware =
     \<lparr>RuleFiles = [], IPBlacklistFile = [], DNSBlacklistFile = [], AnomalyThreshold = 0,
      CountryBlacklist = zero_CountryAccessFilter, CountryWhitelist = zero_CountryAccessFilter,
      Rules = Map.empty, ipBlacklist = {}, dnsBlacklist = {}, LogSeverity = [],
      LogJSON = False, CustomResponses = None, LogFilePath = [], LogBuffer = 0,
      RedactSensitiveData = False, ruleHits = [], MetricsEndpoint = [],
      RateLimit = \<lparr>Requests = 0, Window = 0, CleanupInterval = 0, Paths = [],
                   MatchAllPaths = False\<rparr>,
      rateLimiter = None, totalRequests = 0, blockedRequests = 0, allowedRequests = 0,
      ruleHitsByPhase = [], geoIPStats = [], geoIPBlocked = 0, ruleCache = NewRuleCache,
      IPBlacklistBlockCount = 0, DNSBlacklistBlockCount = 0, regexps = []\<rparr>"

definition zero_WAFState :: WAFState where
  "zero_WAFState =
     \<lparr>TotalScore = 0, Blocked = False, WAFState.StatusCode = 0, ResponseWritten = False\<rparr>"

definition fresh_writer :: ServerWriter where
  "fresh_writer = \<lparr>calls = [], write_error = None\<rparr>"

text \<open>The custom response of common_test.go, with the header of scenario S5 of the
  spec.\<close>

definition customResponse :: "int \<rightharpoonup> CustomBlockResponse" where
  "customResponse =
     [403 \<mapsto> \<lparr>CustomBlockResponse.StatusCode = 403, Headers = [(''Retry-After'', ''60'')],
               Body = ''Access Denied''\<rparr>]"

text \<open>
  A world in which no file exists, the log file opens, and every other call succeeds
  with an empty result (\<open>''{...}''\<close> stands for the text that \<open>json.Marshal\<close> returns); the
  examples below change the answers they are about.
\<close>

definition quiet_world :: World where
  "quiet_world =
     \<lparr>os_Stat = (\<lambda>path. (None, Some ErrNotExist)),
      os_OpenFile = (\<lambda>path. None),
      LoadIPBlacklistFromFile = (\<lambda>path. Inr []),
      LoadDNSBlacklistFromFile = (\<lambda>path blacklistMap. (None, blacklistMap)),
      netip_ParsePrefix = (\<lambda>s. None),
      json_Marshal = (\<lambda>v. Inr ''{...}''),
      maxminddb_Open = (\<lambda>path. Inr path),
      ReadRuleFile = (\<lambda>path. Inr []),
      regexp_Compile = (\<lambda>pattern. True),
      Tor_Provision = None,
      NewRateLimiter = (\<lambda>config. Inr \<lparr>limiter_totalRequests = 0, limiter_blockedRequests = 0\<rparr>),
      UnmarshalCaddyfile = (\<lambda>m. (None, m))\<rparr>"





text \<open>
  Two rule files: \<open>rules.json\<close> holds three rules, two of them with the pattern \<open>admin\<close>
  and different ids and phases; \<open>more.json\<close> holds a third rule with that pattern.
  \<open>generation1\<close> is the middleware after loading the first file, \<open>generation2\<close> after
  then loading both.
\<close>

definition example_rule :: "string \<Rightarrow> int \<Rightarrow> string \<Rightarrow> Rule" where
  "example_rule rule_id phase pattern =
     \<lparr>ID = rule_id, Phase = phase, Pattern = pattern, Targets = [''URI''], Severity = ''high'',
      Score = 5, Action = ''block'', Description = [], regex = None, Priority = 0\<rparr>"

definition rules_world :: World where
  "rules_world =
     quiet_world
       \<lparr>ReadRuleFile := (\<lambda>path.
          if path = ''rules.json''
          then Inr [example_rule ''b-2'' 2 ''admin'', example_rule ''d-4'' 1 ''select'',
                    example_rule ''a-1'' 1 ''admin'']
          else if path = ''more.json'' then Inr [example_rule ''c-3'' 1 ''admin'']
          else Inl (Err ''no such file''))\<rparr>"

definition generation1 :: Middleware where
  "generation1 = snd (loadRules rules_world [''rules.json''] zero_Middleware)"

definition generation2 :: Middleware where
  "generation2 = snd (loadRules rules_world [''rules.json'', ''more.json''] generation1)"

section \<open>Lemmas on response writers\<close>

lemma sent_Header_Set: "sent (Header_Set w k v) = sent w @ [HeaderSet k v]"
  by (cases w) (simp_all add: server_Header_Set_def responseRecorder_Header_Set_def)

lemma sent_WriteHeader: "sent (WriteHeader w code) = sent w @ [WriteHeaderCall code]"
  by (cases w) (simp_all add: server_WriteHeader_def responseRecorder_WriteHeader_def)

lemma sent_Write_prefix: "prefix (sent w) (sent (fst (Write w b)))"
  by (cases w)
     (simp_all add: server_Write_def responseRecorder_Write_def
        responseRecorder_WriteHeader_def server_WriteHeader_def Let_def)

lemma sent_Write_Server: "sent (fst (Write (Server w) b)) = calls w @ [WriteCall b]"
  by (simp add: server_Write_def)

lemma sent_fold_Header_Set:
  "sent (fold (\<lambda>(k, v) w'. Header_Set w' k v) hs w) = sent w @ map (\<lambda>(k, v). HeaderSet k v) hs"
  by (induction hs arbitrary: w) (auto simp: sent_Header_Set)

lemma sent_writeCustomResponse_prefix: "prefix (sent w) (sent (writeCustomResponse m w code))"
proof (cases "CustomResponses m")
  case None
  then show ?thesis by (simp add: writeCustomResponse_def)
next
  case (Some responses)
  show ?thesis
  proof (cases "responses code")
    case None
    with Some show ?thesis by (simp add: writeCustomResponse_def)
  next
    case (Some e)
    let ?w2 = "WriteHeader (fold (\<lambda>(k, v) w'. Header_Set w' k v) (Headers e) w)
                 (CustomBlockResponse.StatusCode e)"
    have "prefix (sent w) (sent ?w2)"
      by (simp add: sent_WriteHeader sent_fold_Header_Set)
    moreover have "prefix (sent ?w2) (sent (fst (Write ?w2 (Body e))))"
      by (rule sent_Write_prefix)
    ultimately have "prefix (sent w) (sent (fst (Write ?w2 (Body e))))"
      by (rule prefix_order.trans)
    with Some \<open>CustomResponses m = Some responses\<close> show ?thesis
      by (simp add: writeCustomResponse_def Let_def)
  qed
qed

lemma blockRequest_state:
  "snd (snd (blockRequest m recorder state code reason)) =
     state\<lparr>Blocked := True, WAFState.StatusCode := code, ResponseWritten := True\<rparr>"
  by (simp add: blockRequest_def Let_def)

lemma writeCustomResponse_incrementBlockedRequestsMetric:
  "writeCustomResponse (incrementBlockedRequestsMetric m) w code = writeCustomResponse m w code"
  by (simp add: writeCustomResponse_def incrementBlockedRequestsMetric_def)

lemma blockRequest_writer:
  "fst (snd (blockRequest m recorder state code reason)) =
     (let recorder2 = WriteHeader (Header_Set recorder ''Content-Type'' ''text/plain'') code
      in if CustomResponses m \<noteq> None
         then writeCustomResponse m recorder2 code
         else fst (Write recorder2 (''Request blocked by WAF. Reason: '' @ reason)))"
proof -
  have "CustomResponses (incrementBlockedRequestsMetric m) = CustomResponses m"
    by (simp add: incrementBlockedRequestsMetric_def)
  then show ?thesis
    by (simp add: blockRequest_def Let_def writeCustomResponse_incrementBlockedRequestsMetric)
qed

lemma blockRequest_sent_prefix:
  "prefix (sent recorder @ [HeaderSet ''Content-Type'' ''text/plain'', WriteHeaderCall code])
     (sent (fst (snd (blockRequest m recorder state code reason))))"
proof -
  let ?r2 = "WriteHeader (Header_Set recorder ''Content-Type'' ''text/plain'') code"
  have r2: "sent ?r2 = sent recorder @ [HeaderSet ''Content-Type'' ''text/plain'', WriteHeaderCall code]"
    by (simp add: sent_WriteHeader sent_Header_Set)
  show ?thesis
    using sent_writeCustomResponse_prefix [of ?r2 m code]
      sent_Write_prefix [of ?r2 "''Request blocked by WAF. Reason: '' @ reason"]
    by (simp add: blockRequest_writer Let_def r2 del: Write.simps)
qed

lemma fold_Server:
  "\<exists>w'. fold (\<lambda>(k, v) w'. Header_Set w' k v) hs (Server w) = Server w'"
  by (induction hs arbitrary: w) auto

lemma apply_op_Blocked:
  "op \<noteq> AllowRequest \<Longrightarrow> Blocked (request_state (apply_op op c))"
  by (cases op; cases c) (simp_all add: request_state_def blockRequest_state)

lemma fold_apply_op_Blocked:
  "AllowRequest \<notin> set ops \<Longrightarrow> Blocked (request_state c) \<Longrightarrow>
     Blocked (request_state (fold apply_op ops c))"
proof (induction ops arbitrary: c)
  case Nil
  then show ?case by simp
next
  case (Cons op ops)
  from Cons.prems have "op \<noteq> AllowRequest" by auto
  then have "Blocked (request_state (apply_op op c))" by (rule apply_op_Blocked)
  with Cons show ?case by simp
qed

section \<open>Lemmas on loading\<close>







section \<open>Lemmas on the rule cache\<close>

lemma compile_via_cache_cache:
  assumes "compile_via_cache W p (rc, heap) = (res, rc', heap')"
  shows "rules rc \<subseteq>\<^sub>m rules rc'" and "res = Some re \<Longrightarrow> rules rc' p = Some re"
  using assms
  by (auto simp: compile_via_cache_def Get_def Set_def map_le_def
      split: option.splits if_splits)

lemma load_rule_objects_cache:
  "load_rule_objects W objs seen (rc, heap) = (out, seen', rc', heap') \<Longrightarrow>
     rules rc \<subseteq>\<^sub>m rules rc' \<and> (\<forall>r \<in> set out. rules rc' (Pattern r) = Some (regex r))"
proof (induction objs arbitrary: seen rc heap out seen' rc' heap')
  case Nil
  then show ?case by simp
next
  case (Cons r rs)
  show ?case
  proof (cases "\<not> valid_rule r \<or> ID r \<in> set seen")
    case True
    with Cons.prems have "load_rule_objects W rs seen (rc, heap) = (out, seen', rc', heap')"
      by simp
    then show ?thesis by (rule Cons.IH)
  next
    case False
    obtain res rc1 heap1 where c: "compile_via_cache W (Pattern r) (rc, heap) = (res, rc1, heap1)"
      by (cases "compile_via_cache W (Pattern r) (rc, heap)") auto
    note le1 = compile_via_cache_cache(1) [OF c]
    show ?thesis
    proof (cases res)
      case None
      with Cons.prems False c
      have "load_rule_objects W rs seen (rc1, heap1) = (out, seen', rc', heap')"
        by simp
      from Cons.IH [OF this] le1 show ?thesis
        by (auto intro: map_le_trans)
    next
      case (Some re)
      obtain out1 seen1 rc2 heap2 where
        l: "load_rule_objects W rs (ID r # seen) (rc1, heap1) = (out1, seen1, rc2, heap2)"
        by (cases "load_rule_objects W rs (ID r # seen) (rc1, heap1)") auto
      with Cons.prems False c Some
      have out: "out = r\<lparr>regex := re\<rparr> # out1" and eq: "rc' = rc2"
        by simp_all
      note ih = Cons.IH [OF l]
      from compile_via_cache_cache(2) [OF c Some] have "rules rc1 (Pattern r) = Some re" .
      with ih have "rules rc2 (Pattern r) = Some re"
        by (auto simp: map_le_def dom_def)
      with ih le1 out eq show ?thesis
        by (auto intro: map_le_trans)
    qed
  qed
qed

lemma load_rule_files_cache:
  "load_rule_files W fs seen (rc, heap) = (res, rc', heap') \<Longrightarrow>
     rules rc \<subseteq>\<^sub>m rules rc' \<and>
     (\<forall>rs. res = Inr rs \<longrightarrow> (\<forall>r \<in> set rs. rules rc' (Pattern r) = Some (regex r)))"
proof (induction fs arbitrary: seen rc heap res rc' heap')
  case Nil
  then show ?case by auto
next
  case (Cons f fs)
  show ?case
  proof (cases "ReadRuleFile W f")
    case (Inl err)
    with Cons.prems show ?thesis by auto
  next
    case (Inr objects)
    obtain out seen1 rc1 heap1 where
      o: "load_rule_objects W objects seen (rc, heap) = (out, seen1, rc1, heap1)"
      by (cases "load_rule_objects W objects seen (rc, heap)") auto
    obtain res2 rc2 heap2 where
      l: "load_rule_files W fs seen1 (rc1, heap1) = (res2, rc2, heap2)"
      by (cases "load_rule_files W fs seen1 (rc1, heap1)") auto
    note p1 = load_rule_objects_cache [OF o] and p2 = Cons.IH [OF l]
    from Cons.prems Inr o l have eq: "rc' = rc2"
      and res: "res = (case res2 of Inl err \<Rightarrow> Inl err | Inr rest \<Rightarrow> Inr (out @ rest))"
      by (auto split: sum.splits)
    from p1 p2 have le: "rules rc \<subseteq>\<^sub>m rules rc2"
      by (auto intro: map_le_trans)
    have "\<forall>r \<in> set out. rules rc2 (Pattern r) = Some (regex r)"
      using p1 p2 by (auto simp: map_le_def dom_def)
    with p2 le eq res show ?thesis
      by (auto split: sum.splits)
  qed
qed

lemma set_insert_rule: "set (insert_rule r rs) = insert r (set rs)"
  by (induction rs) auto

lemma set_sort_rules: "set (sort_rules rs) = set rs"
  by (induction rs) (auto simp: set_insert_rule)

lemma loadRules_cache:
  assumes "loadRules W paths m = (e, m')"
  shows "rules (ruleCache m) \<subseteq>\<^sub>m rules (ruleCache m')"
    and "e = None \<Longrightarrow> Rules m' phase = Some rs \<Longrightarrow> r \<in> set rs \<Longrightarrow>
           rules (ruleCache m') (Pattern r) = Some (regex r)"
proof -
  obtain res rc' heap' where
    l: "load_rule_files W paths [] (ruleCache m, regexps m) = (res, rc', heap')"
    by (cases "load_rule_files W paths [] (ruleCache m, regexps m)") auto
  note p = load_rule_files_cache [OF l]
  from assms l have rc: "ruleCache m' = rc'"
    by (auto simp: loadRules_def split: sum.splits)
  with p show "rules (ruleCache m) \<subseteq>\<^sub>m rules (ruleCache m')" by simp
  assume "e = None" "Rules m' phase = Some rs" "r \<in> set rs"
  with assms l obtain all where "res = Inr all" "r \<in> set all"
    by (auto simp: loadRules_def bucket_by_phase_def set_sort_rules split: sum.splits if_splits)
  with p rc show "rules (ruleCache m') (Pattern r) = Some (regex r)" by auto
qed


lemma generation1_loaded:
  "loadRules rules_world [''rules.json''] zero_Middleware = (None, generation1)"
  by (simp add: generation1_def loadRules_def rules_world_def quiet_world_def
      zero_Middleware_def example_rule_def valid_rule_def compile_via_cache_def Get_def
      Set_def NewRuleCache_def)

lemma generation2_loaded:
  "loadRules rules_world [''rules.json'', ''more.json''] generation1 = (None, generation2)"
  by (simp add: generation2_def generation1_def loadRules_def rules_world_def quiet_world_def
      zero_Middleware_def example_rule_def valid_rule_def compile_via_cache_def Get_def
      Set_def NewRuleCache_def)

lemma generation1_Rules:
  "Rules generation1 1 =
     Some [(example_rule ''a-1'' 1 ''admin'')\<lparr>regex := Some 0\<rparr>,
           (example_rule ''d-4'' 1 ''select'')\<lparr>regex := Some 1\<rparr>]"
  "Rules generation1 2 = Some [(example_rule ''b-2'' 2 ''admin'')\<lparr>regex := Some 0\<rparr>]"
  by (simp_all add: generation1_def loadRules_def rules_world_def quiet_world_def
      zero_Middleware_def example_rule_def valid_rule_def compile_via_cache_def Get_def
      Set_def NewRuleCache_def bucket_by_phase_def rule_le_def)

lemma generation2_Rules:
  "Rules generation2 1 =
     Some [(example_rule ''a-1'' 1 ''admin'')\<lparr>regex := Some 0\<rparr>,
           (example_rule ''c-3'' 1 ''admin'')\<lparr>regex := Some 0\<rparr>,
           (example_rule ''d-4'' 1 ''select'')\<lparr>regex := Some 1\<rparr>]"
  by (simp add: generation2_def generation1_def loadRules_def rules_world_def quiet_world_def
      zero_Middleware_def example_rule_def valid_rule_def compile_via_cache_def Get_def
      Set_def NewRuleCache_def bucket_by_phase_def rule_le_def)

section \<open>Lemmas on provisioning\<close>

text \<open>
  Where the log file opens, \<open>Provision\<close> reaches lines 162 to 168 and no later step of
  the source touches the threshold; the one later step that is not among the sources,
  \<open>UnmarshalCaddyfile\<close> on a dispenser without tokens, is assumed to leave it alone.
\<close>

lemma provision_defaults_threshold:
  "AnomalyThreshold (provision_defaults m) = AnomalyThreshold m"
  by (simp add: provision_defaults_def Let_def)

lemma provision_threshold_value:
  "AnomalyThreshold (provision_threshold m) =
     (if AnomalyThreshold m \<le> 0 then 20 else AnomalyThreshold m)"
  by (simp add: provision_threshold_def)

lemma provision_rate_limit_threshold:
  "provision_rate_limit W m = Inr m' \<Longrightarrow> AnomalyThreshold m' = AnomalyThreshold m"
  by (auto simp: provision_rate_limit_def split: if_splits sum.splits)

lemma provision_geoip_threshold:
  "provision_geoip W m = Inr m' \<Longrightarrow> AnomalyThreshold m' = AnomalyThreshold m"
  by (auto simp: provision_geoip_def Let_def split: if_splits sum.splits bool.splits)

lemma loadRules_threshold:
  "AnomalyThreshold (snd (loadRules W paths m)) = AnomalyThreshold m"
  by (simp add: loadRules_def split: prod.splits sum.splits)


lemma provision_load_threshold:
  "AnomalyThreshold (snd (provision_load W m)) = AnomalyThreshold m"
proof -
  obtain e1 m1 where 1:
    "(if IPBlacklistFile m \<noteq> [] then
        (case loadIPBlacklist W (IPBlacklistFile m) NewTrie of
           (err, t) \<Rightarrow> (err, m\<lparr>ipBlacklist := t\<rparr>))
      else (None, m)) = (e1, m1)"
    by fastforce
  have t1: "AnomalyThreshold m1 = AnomalyThreshold m"
    using 1 by (auto split: if_splits prod.splits)
  obtain e2 m2 where 2:
    "(if DNSBlacklistFile m1 \<noteq> [] then
        (case loadDNSBlacklist W (DNSBlacklistFile m1) {} of
           (err, d) \<Rightarrow> (err, m1\<lparr>dnsBlacklist := d\<rparr>))
      else (None, m1)) = (e2, m2)"
    by fastforce
  have t2: "AnomalyThreshold m2 = AnomalyThreshold m"
    using 2 t1 by (auto split: if_splits prod.splits)
  obtain e3 m3 where 3: "loadRules W (RuleFiles m2) m2 = (e3, m3)"
    by fastforce
  have t3: "AnomalyThreshold m3 = AnomalyThreshold m"
    using loadRules_threshold [of W "RuleFiles m2" m2] t2 by (simp add: 3)
  show ?thesis
    unfolding provision_load_def 1
    by (cases e1; cases e2; cases e3) (simp_all add: 2 3 t1 t2 t3)
qed

lemma Provision_threshold_when_log_file_opens:
  assumes "os_OpenFile W (LogFilePath (provision_defaults m)) = None"
    and "\<And>x. AnomalyThreshold (snd (UnmarshalCaddyfile W x)) = AnomalyThreshold x"
    and "Provision W m = Inr (e, m')"
  shows "AnomalyThreshold m' = (if AnomalyThreshold m \<le> 0 then 20 else AnomalyThreshold m)"
proof -
  let ?t = "if AnomalyThreshold m \<le> 0 then 20 else AnomalyThreshold m"
  let ?m2 = "provision_threshold (provision_defaults m)"
  have t2: "AnomalyThreshold ?m2 = ?t"
    by (simp add: provision_threshold_value provision_defaults_threshold)
  note P = assms(3) [unfolded Provision_def Let_def assms(1), simplified]
  show ?thesis
  proof (cases "Tor_Provision W")
    case (Some err)
    with P t2 show ?thesis by simp
  next
    case None
    let ?m3 = "?m2\<lparr>ruleHits := []\<rparr>"
    have t3: "AnomalyThreshold ?m3 = ?t" using t2 by simp
    note P1 = P [unfolded None, simplified]
    show ?thesis
    proof (cases "provision_rate_limit W ?m3")
      case (Inl err)
      with P1 t3 show ?thesis by simp
    next
      case (Inr m4)
      let ?m5 = "m4\<lparr>geoIPStats := []\<rparr>"
      have t5: "AnomalyThreshold ?m5 = ?t"
        using provision_rate_limit_threshold [OF Inr] t3 by simp
      note P2 = P1 [unfolded Inr, simplified]
      show ?thesis
      proof (cases "provision_geoip W ?m5")
        case (Inl p)
        with P2 show ?thesis by simp
      next
        case g: (Inr m6)
        have t6: "AnomalyThreshold m6 = ?t"
          using provision_geoip_threshold [OF g] t5 by simp
        obtain e7 m7 where u: "UnmarshalCaddyfile W m6 = (e7, m7)"
          by fastforce
        have t7: "AnomalyThreshold m7 = ?t"
          using assms(2) [of m6] u t6 by simp
        note P3 = P2 [unfolded g, simplified, unfolded u]
        show ?thesis
        proof (cases e7)
          case (Some err)
          with P3 t7 show ?thesis by simp
        next
          case n: None
          with P3 have "m' = snd (provision_load W m7)"
            by (simp add: prod_eq_iff)
          with t7 show ?thesis
            by (simp add: provision_load_threshold)
        qed
      qed
    qed
  qed
qed

section \<open>The claims\<close>

text \<open>
  C1, as stated: \<open>Blocked\<close> is a latch, which no later operation of the request, in
  particular \<open>allowRequest\<close>, sets back to false. The code does otherwise: \<open>allowRequest\<close>
  assigns false to \<open>Blocked\<close> unconditionally. Here a request is blocked with status 403
  and \<open>allowRequest\<close> is then called on its state.
\<close>

theorem allowRequest_clears_Blocked:
  "Blocked (request_state (apply_op (BlockRequest 403 ''ip_blacklist'')
      (zero_Middleware, Server fresh_writer, zero_WAFState))) \<and>
   \<not> Blocked (request_state (apply_op AllowRequest (apply_op (BlockRequest 403 ''ip_blacklist'')
      (zero_Middleware, Server fresh_writer, zero_WAFState))))"
  by (simp add: request_state_def blockRequest_def allowRequest_def Let_def
      split: prod.splits)

text \<open>
  C1, amended: \<open>blockRequest\<close> sets \<open>Blocked\<close> to true whatever the state was; once
  \<open>Blocked\<close> is true it stays true through every sequence of operations in which
  \<open>allowRequest\<close> does not occur; and \<open>allowRequest\<close> sets \<open>Blocked\<close> to false (and the
  status to 200, and \<open>ResponseWritten\<close> to false) whatever the state was.
\<close>

theorem Blocked_latch_until_allowRequest:
  "Blocked (request_state (apply_op (BlockRequest code reason) c)) \<and>
   (AllowRequest \<notin> set ops \<longrightarrow> Blocked (request_state c) \<longrightarrow>
      Blocked (request_state (fold apply_op ops c))) \<and>
   snd (allowRequest m state) =
     state\<lparr>Blocked := False, WAFState.StatusCode := 200, ResponseWritten := False\<rparr>"
  using fold_apply_op_Blocked [of ops c]
  by (simp add: apply_op_Blocked allowRequest_def StatusOK_def)

theorem Blocked_latch_until_allowRequest_witness:
  "Blocked (request_state (fold apply_op [BlockRequest 429 ''rate_limit'', BlockRequest 403 ''rule'']
      (apply_op (BlockRequest 403 ''ip_blacklist'')
         (zero_Middleware, Server fresh_writer, zero_WAFState))))"
proof -
  have "AllowRequest \<notin> set [BlockRequest 429 ''rate_limit'', BlockRequest 403 ''rule'']"
    by simp
  moreover have "Blocked (request_state (apply_op (BlockRequest 403 ''ip_blacklist'')
      (zero_Middleware, Server fresh_writer, zero_WAFState)))"
    by (simp add: request_state_def blockRequest_state)
  ultimately show ?thesis
    using Blocked_latch_until_allowRequest
      [of 403 "''ip_blacklist''"
          "apply_op (BlockRequest 403 ''ip_blacklist'')
             (zero_Middleware, Server fresh_writer, zero_WAFState)"
          "[BlockRequest 429 ''rate_limit'', BlockRequest 403 ''rule'']"]
    by blast
qed

text \<open>
  C2, as stated: a call of \<open>blockRequest\<close> made while \<open>ResponseWritten\<close> is already true
  writes nothing. The code does otherwise: \<open>blockRequest\<close> does not read
  \<open>ResponseWritten\<close>. Here it is called with status 429 on a state whose
  \<open>ResponseWritten\<close> is true and a writer that has received no call.
\<close>

theorem blockRequest_writes_when_ResponseWritten:
  "ResponseWritten (zero_WAFState\<lparr>ResponseWritten := True\<rparr>) \<and>
   sent (Server fresh_writer) = [] \<and>
   sent (request_writer (blockRequest zero_Middleware (Server fresh_writer)
           (zero_WAFState\<lparr>ResponseWritten := True\<rparr>) 429 ''rate_limit'')) =
     [HeaderSet ''Content-Type'' ''text/plain'', WriteHeaderCall 429,
      WriteCall ''Request blocked by WAF. Reason: rate_limit'']"
  by (simp add: request_writer_def blockRequest_def Let_def zero_Middleware_def
      zero_WAFState_def fresh_writer_def incrementBlockedRequestsMetric_def
      server_Header_Set_def server_WriteHeader_def server_Write_def)

text \<open>
  C2, amended: every call of \<open>blockRequest\<close> sets \<open>ResponseWritten\<close> to true and writes
  to the response, whatever the value of \<open>ResponseWritten\<close> was: the calls that reach the
  server's writer continue with the header \<open>Content-Type: text/plain\<close> and the status
  code, and when \<open>custom_responses\<close> is nil the default message is then written as the
  body.
\<close>

theorem blockRequest_sets_ResponseWritten_and_writes:
  "ResponseWritten (request_state (blockRequest m recorder state code reason)) \<and>
   prefix (sent recorder @ [HeaderSet ''Content-Type'' ''text/plain'', WriteHeaderCall code])
     (sent (request_writer (blockRequest m recorder state code reason))) \<and>
   (CustomResponses m = None \<longrightarrow>
      request_writer (blockRequest m recorder state code reason) =
        fst (Write (WriteHeader (Header_Set recorder ''Content-Type'' ''text/plain'') code)
               (''Request blocked by WAF. Reason: '' @ reason)))"
  using blockRequest_sent_prefix [of recorder code m state reason]
  by (simp add: request_state_def request_writer_def blockRequest_state blockRequest_writer
      del: Write.simps)

theorem blockRequest_sets_ResponseWritten_and_writes_witness:
  "ResponseWritten (request_state (blockRequest zero_Middleware (Server fresh_writer)
      (zero_WAFState\<lparr>ResponseWritten := True\<rparr>) 403 ''rule'')) \<and>
   sent (request_writer (blockRequest zero_Middleware (Server fresh_writer)
      (zero_WAFState\<lparr>ResponseWritten := True\<rparr>) 403 ''rule'')) =
     [HeaderSet ''Content-Type'' ''text/plain'', WriteHeaderCall 403,
      WriteCall ''Request blocked by WAF. Reason: rule'']"
proof -
  have "CustomResponses zero_Middleware = None"
    by (simp add: zero_Middleware_def)
  then show ?thesis
    using blockRequest_sets_ResponseWritten_and_writes
      [of zero_Middleware "Server fresh_writer" "zero_WAFState\<lparr>ResponseWritten := True\<rparr>"
          403 "''rule''"]
    by (simp add: fresh_writer_def server_Header_Set_def server_WriteHeader_def
        server_Write_def)
qed

text \<open>
  C3, as stated: with an entry for the status code in \<open>custom_responses\<close>, the response
  uses the entry's status code, headers and body instead of the default body and the
  default status write. The code does otherwise: \<open>blockRequest\<close> sets
  \<open>Content-Type: text/plain\<close> and writes the status code before it looks at
  \<open>custom_responses\<close>. Here scenario S5 of the spec: a 403 block with
  \<open>custom_responses[403] = {403, Retry-After: 60, Access Denied}\<close>; the first two calls
  are the default header and the default status write.
\<close>

theorem blockRequest_custom_response_after_default_status:
  "sent (request_writer (blockRequest (zero_Middleware\<lparr>CustomResponses := Some customResponse\<rparr>)
           (Server fresh_writer) zero_WAFState 403 ''ip_blacklist'')) =
     [HeaderSet ''Content-Type'' ''text/plain'', WriteHeaderCall 403,
      HeaderSet ''Retry-After'' ''60'', WriteHeaderCall 403, WriteCall ''Access Denied'']"
  by (simp add: request_writer_def blockRequest_def Let_def zero_Middleware_def
      zero_WAFState_def fresh_writer_def incrementBlockedRequestsMetric_def
      writeCustomResponse_def customResponse_def
      server_Header_Set_def server_WriteHeader_def server_Write_def)

text \<open>
  C3, amended: for every block decision with status code \<open>S\<close>, \<open>blockRequest\<close> first sets
  \<open>Content-Type: text/plain\<close> and writes the status \<open>S\<close>; if \<open>custom_responses\<close> has an
  entry for \<open>S\<close>, the entry's headers are then set, its status code is written and its
  body is written, and the default body is not written. On the server's own writer the
  calls are exactly these, in this order.
\<close>

theorem blockRequest_custom_response:
  "CustomResponses m = Some responses \<Longrightarrow> responses code = Some e \<Longrightarrow>
     request_writer (blockRequest m recorder state code reason) =
       fst (Write
              (WriteHeader
                 (fold (\<lambda>(k, v) w'. Header_Set w' k v) (Headers e)
                    (WriteHeader (Header_Set recorder ''Content-Type'' ''text/plain'') code))
                 (CustomBlockResponse.StatusCode e))
              (Body e)) \<and>
     sent (request_writer (blockRequest m (Server w) state code reason)) =
       calls w @ [HeaderSet ''Content-Type'' ''text/plain'', WriteHeaderCall code] @
       map (\<lambda>(k, v). HeaderSet k v) (Headers e) @
       [WriteHeaderCall (CustomBlockResponse.StatusCode e), WriteCall (Body e)]"
proof -
  assume a: "CustomResponses m = Some responses" "responses code = Some e"
  have eq: "\<And>rec. request_writer (blockRequest m rec state code reason) =
       fst (Write
              (WriteHeader
                 (fold (\<lambda>(k, v) w'. Header_Set w' k v) (Headers e)
                    (WriteHeader (Header_Set rec ''Content-Type'' ''text/plain'') code))
                 (CustomBlockResponse.StatusCode e))
              (Body e))"
    using a
    by (simp add: request_writer_def blockRequest_writer writeCustomResponse_def Let_def
        del: Write.simps)
  obtain w' where w': "WriteHeader
                 (fold (\<lambda>(k, v) w'. Header_Set w' k v) (Headers e)
                    (WriteHeader (Header_Set (Server w) ''Content-Type'' ''text/plain'') code))
                 (CustomBlockResponse.StatusCode e) = Server w'"
    using fold_Server [of "Headers e"
        "server_WriteHeader (server_Header_Set w ''Content-Type'' ''text/plain'') code"]
    by auto
  have "sent (Server w') = calls w @ [HeaderSet ''Content-Type'' ''text/plain'', WriteHeaderCall code] @
       map (\<lambda>(k, v). HeaderSet k v) (Headers e) @
       [WriteHeaderCall (CustomBlockResponse.StatusCode e)]"
    unfolding w' [symmetric]
    by (simp add: sent_WriteHeader sent_fold_Header_Set sent_Header_Set
        server_Header_Set_def server_WriteHeader_def)
  then have "sent (fst (Write (Server w') (Body e))) =
       calls w @ [HeaderSet ''Content-Type'' ''text/plain'', WriteHeaderCall code] @
       map (\<lambda>(k, v). HeaderSet k v) (Headers e) @
       [WriteHeaderCall (CustomBlockResponse.StatusCode e), WriteCall (Body e)]"
    by (simp add: server_Write_def)
  then show ?thesis
    using eq [of recorder] eq [of "Server w"] w' by simp
qed

theorem blockRequest_custom_response_witness:
  "sent (request_writer (blockRequest (zero_Middleware\<lparr>CustomResponses := Some customResponse\<rparr>)
           (Server fresh_writer) zero_WAFState 403 ''rule'')) =
     [HeaderSet ''Content-Type'' ''text/plain'', WriteHeaderCall 403,
      HeaderSet ''Retry-After'' ''60'', WriteHeaderCall 403, WriteCall ''Access Denied'']"
proof -
  have 1: "CustomResponses (zero_Middleware\<lparr>CustomResponses := Some customResponse\<rparr>) =
             Some customResponse"
    by simp
  have 2: "customResponse 403 =
             Some \<lparr>CustomBlockResponse.StatusCode = 403, Headers = [(''Retry-After'', ''60'')],
                   Body = ''Access Denied''\<rparr>"
    by (simp add: customResponse_def)
  show ?thesis
    using blockRequest_custom_response [OF 1 2, of "Server fresh_writer" zero_WAFState
        "''rule''" fresh_writer, THEN conjunct2]
    by (simp add: fresh_writer_def)
qed







text \<open>
  C6: with an anomaly threshold of zero and a log file that cannot be opened,
  \<open>Provision\<close> returns nil at line 145, before the threshold is set to 20 at line 164: the
  middleware is provisioned with the threshold 0.
\<close>

theorem Provision_returns_before_threshold:
  "Provision (quiet_world\<lparr>os_OpenFile := (\<lambda>path. Some (Err ''permission denied''))\<rparr>)
     zero_Middleware =
     Inr (None, provision_defaults zero_Middleware) \<and>
   AnomalyThreshold (provision_defaults zero_Middleware) = 0"
  by (simp add: Provision_def provision_defaults_def Let_def zero_Middleware_def
      quiet_world_def)

text \<open>
  C7: after a load of the rule files, and after a later reload with the same cache, any
  two loaded rules with the same pattern string hold the same pointer in their \<open>regex\<close>
  field, and that pointer is the entry that \<open>RuleCache.Get\<close> returns for the pattern: rules
  \<open>r1\<close> and \<open>r1'\<close> of the first generation and \<open>r2\<close> of the second share one compiled object.
\<close>

theorem loadRules_identical_patterns_share_regex:
  assumes "loadRules W paths m = (None, m1)" and "loadRules W' paths' m1 = (None, m2)"
    and "Rules m1 phase1 = Some rs1" and "r1 \<in> set rs1"
    and "Rules m1 phase1' = Some rs1'" and "r1' \<in> set rs1'"
    and "Rules m2 phase2 = Some rs2" and "r2 \<in> set rs2"
    and "Pattern r1' = Pattern r1" and "Pattern r2 = Pattern r1"
  shows "regex r1' = regex r1 \<and> regex r2 = regex r1 \<and>
         Get (ruleCache m1) (Pattern r1) = (regex r1, True) \<and>
         Get (ruleCache m2) (Pattern r1) = (regex r1, True)"
proof -
  have a: "rules (ruleCache m1) (Pattern r1) = Some (regex r1)"
    using loadRules_cache(2) [OF assms(1) refl assms(3) assms(4)] .
  have b: "rules (ruleCache m1) (Pattern r1') = Some (regex r1')"
    using loadRules_cache(2) [OF assms(1) refl assms(5) assms(6)] .
  have c: "rules (ruleCache m2) (Pattern r2) = Some (regex r2)"
    using loadRules_cache(2) [OF assms(2) refl assms(7) assms(8)] .
  have "rules (ruleCache m1) \<subseteq>\<^sub>m rules (ruleCache m2)"
    using loadRules_cache(1) [OF assms(2)] .
  with a have d: "rules (ruleCache m2) (Pattern r1) = Some (regex r1)"
    by (auto simp: map_le_def dom_def)
  from a b c d assms(9) assms(10) show ?thesis
    by (simp add: Get_def)
qed

theorem loadRules_identical_patterns_share_regex_witness:
  "loadRules rules_world [''rules.json''] zero_Middleware = (None, generation1) \<and>
   loadRules rules_world [''rules.json'', ''more.json''] generation1 = (None, generation2) \<and>
   map ID (the (Rules generation1 1)) = [''a-1'', ''d-4''] \<and>
   map ID (the (Rules generation1 2)) = [''b-2''] \<and>
   map ID (the (Rules generation2 1)) = [''a-1'', ''c-3'', ''d-4''] \<and>
   regex (hd (the (Rules generation1 2))) = regex (hd (the (Rules generation1 1))) \<and>
   regex (the (Rules generation2 1) ! 1) = regex (hd (the (Rules generation1 1))) \<and>
   Get (ruleCache generation2) ''admin'' = (regex (hd (the (Rules generation1 1))), True)"
proof -
  let ?a = "(example_rule ''a-1'' 1 ''admin'')\<lparr>regex := Some 0\<rparr>"
  let ?b = "(example_rule ''b-2'' 2 ''admin'')\<lparr>regex := Some 0\<rparr>"
  let ?c = "(example_rule ''c-3'' 1 ''admin'')\<lparr>regex := Some 0\<rparr>"
  let ?d = "(example_rule ''d-4'' 1 ''select'')\<lparr>regex := Some 1\<rparr>"
  have ids: "map ID (the (Rules generation1 1)) = [''a-1'', ''d-4'']"
    "map ID (the (Rules generation1 2)) = [''b-2'']"
    "map ID (the (Rules generation2 1)) = [''a-1'', ''c-3'', ''d-4'']"
    by (simp_all add: generation1_Rules generation2_Rules example_rule_def)
  have sel: "hd (the (Rules generation1 1)) = ?a" "hd (the (Rules generation1 2)) = ?b"
    "the (Rules generation2 1) ! 1 = ?c"
    by (simp_all add: generation1_Rules generation2_Rules)
  have mem: "?a \<in> set [?a, ?d]" "?b \<in> set [?b]" "?c \<in> set [?a, ?c, ?d]"
    by simp_all
  have pat: "Pattern ?b = Pattern ?a" "Pattern ?c = Pattern ?a" "Pattern ?a = ''admin''"
    by (simp_all add: example_rule_def)
  from loadRules_identical_patterns_share_regex
    [OF generation1_loaded generation2_loaded generation1_Rules(1) mem(1)
        generation1_Rules(2) mem(2) generation2_Rules mem(3) pat(1) pat(2)]
  have "regex ?b = regex ?a \<and> regex ?c = regex ?a \<and>
        Get (ruleCache generation2) (Pattern ?a) = (regex ?a, True)"
    by simp
  with ids generation1_loaded generation2_loaded show ?thesis
    unfolding sel pat(3) by simp
qed

text \<open>
  C8: \<open>handleMetricsRequest\<close> hands \<open>json.Marshal\<close> a map with exactly the eleven keys of
  the spec; it sets \<open>Content-Type: application/json\<close> before anything else; and when
  \<open>json.Marshal\<close> returns the text, that text is what is written as the body (on the
  server's own writer the calls are the header and the body, and no other).
\<close>

theorem handleMetricsRequest_json_fields:
  "set (map fst (metrics m)) =
     {''total_requests'', ''blocked_requests'', ''allowed_requests'', ''rule_hits'',
      ''rule_hits_by_phase'', ''geoip_blocked'', ''ip_blacklist_hits'', ''dns_blacklist_hits'',
      ''rate_limiter_requests'', ''rate_limiter_blocked_requests'', ''version''} \<and>
   distinct (map fst (metrics m)) \<and>
   prefix (sent w @ [HeaderSet ''Content-Type'' ''application/json''])
     (sent (snd (handleMetricsRequest W m w))) \<and>
   (json_Marshal W (metrics m) = Inr jsonMetrics \<longrightarrow>
      snd (handleMetricsRequest W m w) =
        fst (Write (Header_Set w ''Content-Type'' ''application/json'') jsonMetrics) \<and>
      sent (snd (handleMetricsRequest W m (Server sw))) =
        calls sw @ [HeaderSet ''Content-Type'' ''application/json'', WriteCall jsonMetrics])"
proof (intro conjI impI)
  show "set (map fst (metrics m)) =
     {''total_requests'', ''blocked_requests'', ''allowed_requests'', ''rule_hits'',
      ''rule_hits_by_phase'', ''geoip_blocked'', ''ip_blacklist_hits'', ''dns_blacklist_hits'',
      ''rate_limiter_requests'', ''rate_limiter_blocked_requests'', ''version''}"
    by (simp add: metrics_def Let_def)
  show "distinct (map fst (metrics m))"
    by (simp add: metrics_def Let_def)
  let ?w1 = "Header_Set w ''Content-Type'' ''application/json''"
  have w1: "sent ?w1 = sent w @ [HeaderSet ''Content-Type'' ''application/json'']"
    by (rule sent_Header_Set)
  show "prefix (sent w @ [HeaderSet ''Content-Type'' ''application/json''])
     (sent (snd (handleMetricsRequest W m w)))"
  proof (cases "json_Marshal W (metrics m)")
    case (Inl err)
    then show ?thesis
      by (simp add: handleMetricsRequest_def Let_def sent_WriteHeader w1)
  next
    case (Inr js)
    have "snd (handleMetricsRequest W m w) = fst (Write ?w1 js)"
      using Inr
      by (simp add: handleMetricsRequest_def Let_def split: prod.splits option.splits
          del: Write.simps)
    then show ?thesis
      using sent_Write_prefix [of ?w1 js] by (simp add: w1)
  qed
next
  assume ok: "json_Marshal W (metrics m) = Inr jsonMetrics"
  then show "snd (handleMetricsRequest W m w) =
        fst (Write (Header_Set w ''Content-Type'' ''application/json'') jsonMetrics)"
    by (simp add: handleMetricsRequest_def Let_def split: prod.splits option.splits
        del: Write.simps)
  from ok show "sent (snd (handleMetricsRequest W m (Server sw))) =
        calls sw @ [HeaderSet ''Content-Type'' ''application/json'', WriteCall jsonMetrics]"
    by (simp add: handleMetricsRequest_def Let_def server_Header_Set_def server_Write_def
        split: prod.splits option.splits)
qed

theorem handleMetricsRequest_json_fields_witness:
  "handleMetricsRequest quiet_world zero_Middleware (Server fresh_writer) =
     (None, Server \<lparr>calls = [HeaderSet ''Content-Type'' ''application/json'', WriteCall ''{...}''],
                    write_error = None\<rparr>)"
proof -
  have ok: "json_Marshal quiet_world (metrics zero_Middleware) = Inr ''{...}''"
    by (simp add: quiet_world_def)
  have "snd (handleMetricsRequest quiet_world zero_Middleware (Server fresh_writer)) =
          fst (Write (Header_Set (Server fresh_writer) ''Content-Type'' ''application/json'') ''{...}'')"
    using handleMetricsRequest_json_fields
      [of zero_Middleware "Server fresh_writer" quiet_world "''{...}''"] ok
    by blast
  moreover have "fst (handleMetricsRequest quiet_world zero_Middleware (Server fresh_writer)) = None"
    using ok
    by (simp add: handleMetricsRequest_def Let_def fresh_writer_def server_Header_Set_def
        server_Write_def)
  ultimately show ?thesis
    by (simp add: prod_eq_iff fresh_writer_def server_Header_Set_def server_Write_def)
qed

text \<open>
  C9: with a non-empty path for which \<open>os.Stat\<close> fails with an error other than "does not
  exist" (here: permission denied), \<open>info\<close> is nil and \<open>os.IsNotExist(err)\<close> is false, so
  \<open>fileExists\<close> calls \<open>IsDir\<close> on the nil \<open>FileInfo\<close> and panics; it returns no boolean.
\<close>

theorem fileExists_panics_on_stat_error:
  "fileExists (quiet_world\<lparr>os_Stat := (\<lambda>path. (None, Some ErrPermission))\<rparr>)
     ''/var/lib/GeoLite2-Country.mmdb'' =
     Inl NilPointerDereference"
  by (simp add: fileExists_def quiet_world_def os_IsNotExist_def)

text \<open>
  C10. For every \<open>responseRecorder\<close> \<open>r\<close> and byte string \<open>b\<close>: \<open>Write\<close> appends \<open>b\<close> to
  the buffer and returns \<open>(len(b), nil)\<close>; no \<open>Write\<close> reaches the wrapped writer, whose
  trace grows by the single call \<open>WriteHeader(200)\<close> when no status was set
  (\<open>statusCode = 0\<close>) and nothing was written before, and by nothing otherwise; in the first
  case 200 is recorded as the status; and \<open>StatusCode()\<close> is 200 when no status was set and
  the status that was set otherwise.
\<close>

theorem responseRecorder_Write_StatusCode:
  "responseRecorder_Write r b = (r', n, err) \<Longrightarrow>
     body r' = body r @ b \<and> n = int (length b) \<and> err = None \<and> written r' \<and>
     write_error (ResponseWriter r') = write_error (ResponseWriter r) \<and>
     calls (ResponseWriter r') =
       calls (ResponseWriter r) @
         (if statusCode r = 0 \<and> \<not> written r then [WriteHeaderCall 200] else []) \<and>
     statusCode r' = (if statusCode r = 0 \<and> \<not> written r then 200 else statusCode r) \<and>
     responseRecorder_StatusCode r = (if statusCode r = 0 then 200 else statusCode r)"
  by (auto simp: responseRecorder_Write_def responseRecorder_WriteHeader_def
      server_WriteHeader_def responseRecorder_StatusCode_def StatusOK_def Let_def)

theorem responseRecorder_Write_StatusCode_witness:
  "body (fst (responseRecorder_Write (NewResponseRecorder \<lparr>calls = [], write_error = None\<rparr>) ''ok'')) = ''ok''
   \<and> calls (ResponseWriter (fst (responseRecorder_Write (NewResponseRecorder \<lparr>calls = [], write_error = None\<rparr>) ''ok'')))
       = [WriteHeaderCall 200]
   \<and> responseRecorder_StatusCode (fst (responseRecorder_Write (NewResponseRecorder \<lparr>calls = [], write_error = None\<rparr>) ''ok'')) = 200"
  using responseRecorder_Write_StatusCode
    [of "NewResponseRecorder \<lparr>calls = [], write_error = None\<rparr>" "''ok''"
        "fst (responseRecorder_Write (NewResponseRecorder \<lparr>calls = [], write_error = None\<rparr>) ''ok'')"
        "int (length ''ok'')" None]
  by (simp add: responseRecorder_Write_def responseRecorder_WriteHeader_def
      server_WriteHeader_def responseRecorder_StatusCode_def StatusOK_def Let_def
      NewResponseRecorder_def)

end
